theory Spec2Isabelle
  imports Main
begin

section \<open>Strings and numbers of the JavaScript runtime\<close>

text \<open>
  JavaScript strings are modelled as \<open>string\<close>; \<open>length\<close> is the \<open>.length\<close> of the
  source (code units, which the source and its documentation call bytes).
  Numbers are modelled as integers: \<open>timeout\<close> and \<open>max_response_size\<close> are
  \<open>int\<close>, and so are the numbers inside a parsed JSON value.
\<close>

abbreviation sq :: char where "sq \<equiv> CHR 0x27"
abbreviation dq :: char where "dq \<equiv> CHR 0x22"
abbreviation bs :: char where "bs \<equiv> CHR 0x5C"
abbreviation nl :: char where "nl \<equiv> CHR 0x0A"

text \<open>\<open>Array.prototype.join\<close> on an array of strings.\<close>

fun join :: "string \<Rightarrow> string list \<Rightarrow> string" where
  "join sep [] = []"
| "join sep [x] = x"
| "join sep (x # y # ys) = x @ sep @ join sep (y # ys)"

text \<open>\<open>Number.prototype.toString\<close> on an integer: plain decimal digits.\<close>

definition digit :: "nat \<Rightarrow> char" where
  "digit n = ''0123456789'' ! n"

function show_nat :: "nat \<Rightarrow> string" where
  "show_nat n = (if n < 10 then [digit n] else show_nat (n div 10) @ [digit (n mod 10)])"
  by pat_completeness auto
termination
  by (relation "measure id") auto

definition Number_toString :: "int \<Rightarrow> string" where
  "Number_toString i = (if i < 0 then CHR ''-'' # show_nat (nat (- i)) else show_nat (nat i))"

text \<open>
  \<open>String.prototype.substring(start, end)\<close>: both indices are clamped to
  \<open>[0, length]\<close> and swapped when \<open>start > end\<close>.
\<close>

definition substring :: "string \<Rightarrow> int \<Rightarrow> int \<Rightarrow> string" where
  "substring s start end' =
     (let len = int (length s);
          finalStart = min (max start 0) len;
          finalEnd = min (max end' 0) len;
          from = min finalStart finalEnd;
          to = max finalStart finalEnd
      in take (nat (to - from)) (drop (nat from) s))"

section \<open>JSON values and \<open>JSON.stringify(value, null, 2)\<close>\<close>

text \<open>
  A parsed JSON value. The entries of \<open>JObject\<close> are the object's own properties in
  the order \<open>Object.entries\<close> enumerates them.
\<close>

datatype json =
    JNull
  | JBool bool
  | JNumber int
  | JString string
  | JArray "json list"
  | JObject "(string \<times> json) list"

definition hex :: "nat \<Rightarrow> char" where
  "hex n = ''0123456789abcdef'' ! n"

text \<open>\<open>QuoteJSONString\<close> of ECMA-262, one code unit at a time.\<close>

definition quote_char :: "char \<Rightarrow> string" where
  "quote_char c =
     (if c = CHR 0x08 then [bs, CHR ''b'']
      else if c = CHR 0x09 then [bs, CHR ''t'']
      else if c = nl then [bs, CHR ''n'']
      else if c = CHR 0x0C then [bs, CHR ''f'']
      else if c = CHR 0x0D then [bs, CHR ''r'']
      else if c = dq then [bs, dq]
      else if c = bs then [bs, bs]
      else if (of_char c :: nat) < 32
        then [bs, CHR ''u'', CHR ''0'', CHR ''0'',
              hex ((of_char c :: nat) div 16), hex ((of_char c :: nat) mod 16)]
      else [c])"

definition quote :: "string \<Rightarrow> string" where
  "quote s = [dq] @ concat (map quote_char s) @ [dq]"

text \<open>
  \<open>SerializeJSONProperty\<close> with the gap of two spaces; \<open>indent\<close> is the current
  indentation. An empty array is \<open>[]\<close>, an empty object \<open>{}\<close>.
\<close>

fun serialize :: "string \<Rightarrow> json \<Rightarrow> string" where
  "serialize indent JNull = ''null''"
| "serialize indent (JBool b) = (if b then ''true'' else ''false'')"
| "serialize indent (JNumber n) = Number_toString n"
| "serialize indent (JString s) = quote s"
| "serialize indent (JArray xs) =
     (if xs = [] then ''[]''
      else [CHR ''['', nl] @ (indent @ ''  '')
           @ join ([CHR '','', nl] @ (indent @ ''  '')) (map (serialize (indent @ ''  '')) xs)
           @ [nl] @ indent @ '']'')"
| "serialize indent (JObject kvs) =
     (if kvs = [] then ''{}''
      else [CHR ''{'', nl] @ (indent @ ''  '')
           @ join ([CHR '','', nl] @ (indent @ ''  ''))
               (map (\<lambda>(k, v). quote k @ '': '' @ serialize (indent @ ''  '') v) kvs)
           @ [nl] @ indent @ ''}'')"

definition JSON_stringify :: "json \<Rightarrow> string" where
  "JSON_stringify v = serialize [] v"

section \<open>The arguments of \<open>curl_request\<close>\<close>

text \<open>
  The \<open>args\<close> object of a tool call, typed as the input schema declares it. An absent
  property is \<open>None\<close>; the destructuring at the head of \<open>handleCurlRequest\<close> gives
  it its default. The property \<open>method\<close> is the field \<open>method_arg\<close>.
\<close>

record args =
  url :: string
  method_arg :: "string option"
  headers :: "(string \<times> string) list option"
  data :: "string option"
  timeout :: "int option"
  follow_redirects :: "bool option"
  include_headers :: "bool option"
  user_agent :: "string option"
  max_response_size :: "int option"

definition method_of :: "args \<Rightarrow> string" where
  "method_of a = (case method_arg a of None \<Rightarrow> ''GET'' | Some m \<Rightarrow> m)"

definition headers_of :: "args \<Rightarrow> (string \<times> string) list" where
  "headers_of a = (case headers a of None \<Rightarrow> [] | Some h \<Rightarrow> h)"

definition timeout_of :: "args \<Rightarrow> int" where
  "timeout_of a = (case timeout a of None \<Rightarrow> 30 | Some t \<Rightarrow> t)"

definition follow_redirects_of :: "args \<Rightarrow> bool" where
  "follow_redirects_of a = (case follow_redirects a of None \<Rightarrow> True | Some b \<Rightarrow> b)"

definition include_headers_of :: "args \<Rightarrow> bool" where
  "include_headers_of a = (case include_headers a of None \<Rightarrow> False | Some b \<Rightarrow> b)"

definition user_agent_of :: "args \<Rightarrow> string" where
  "user_agent_of a = (case user_agent a of None \<Rightarrow> ''curl-mcp-server/1.1.0'' | Some u \<Rightarrow> u)"

definition max_response_size_of :: "args \<Rightarrow> int" where
  "max_response_size_of a = (case max_response_size a of None \<Rightarrow> 800000 | Some m \<Rightarrow> m)"

section \<open>Building the curl command\<close>

text \<open>\<open>data.replace(/'/g, "\\'")\<close>: every single quote gets a backslash before it.\<close>

definition escape_data :: "string \<Rightarrow> string" where
  "escape_data d = concat (map (\<lambda>c. if c = sq then [bs, sq] else [c]) d)"

text \<open>
  The guard \<open>data && ["POST", "PUT", "PATCH"].includes(method)\<close>: an absent and an
  empty \<open>data\<close> are both falsy.
\<close>

definition data_piece :: "args \<Rightarrow> string list" where
  "data_piece a =
     (case data a of
        None \<Rightarrow> []
      | Some d \<Rightarrow>
          if d \<noteq> [] \<and> method_of a \<in> set [''POST'', ''PUT'', ''PATCH'']
          then [''--data '' @ [sq] @ escape_data d @ [sq]]
          else [])"

text \<open>The array \<open>curlCmd\<close> after all the pushes, in order.\<close>

definition curlCmd :: "args \<Rightarrow> string list" where
  "curlCmd a =
     [''curl'',
      ''--max-time '' @ Number_toString (timeout_of a),
      ''--user-agent '' @ [dq] @ user_agent_of a @ [dq],
      ''--silent'',
      ''--show-error'']
     @ (if follow_redirects_of a then [''--location''] else [])
     @ (if include_headers_of a then [''--include''] else [])
     @ [''--request '' @ method_of a]
     @ map (\<lambda>(key, value). ''--header '' @ [dq] @ key @ '': '' @ value @ [dq]) (headers_of a)
     @ data_piece a
     @ [[dq] @ url a @ [dq]]"

definition command :: "args \<Rightarrow> string" where
  "command a = join '' '' (curlCmd a)"

section \<open>The runtime: URL parser, child process, JSON parser\<close>

text \<open>
  What a child process did with a shell command: what it wrote to its standard output
  and standard error, and whether it ended with a nonzero exit code or a signal.
\<close>

record child_outcome =
  child_stdout :: string
  child_stderr :: string
  child_failed :: bool

text \<open>
  The built-ins the handler calls. \<open>URL_parses u\<close> says that \<open>new URL(u)\<close> does
  not throw; \<open>shell\<close> runs a command line; \<open>JSON_parse\<close> is \<open>JSON.parse\<close>, with
  \<open>None\<close> for a \<open>SyntaxError\<close>.
\<close>

record runtime =
  URL_parses :: "string \<Rightarrow> bool"
  shell :: "string \<Rightarrow> child_outcome"
  JSON_parse :: "string \<Rightarrow> json option"

text \<open>A thrown \<open>Error\<close>: its \<open>message\<close> and its \<open>stderr\<close> property (absent is \<open>None\<close>).\<close>

datatype js_error = Error string "string option"

fun message :: "js_error \<Rightarrow> string" where
  "message (Error m e) = m"

fun stderr_of :: "js_error \<Rightarrow> string option" where
  "stderr_of (Error m e) = e"

text \<open>The \<open>maxBuffer\<close> option the handler passes: \<open>10 * 1024 * 1024\<close>.\<close>

definition maxBuffer :: nat where
  "maxBuffer = 10 * 1024 * 1024"

text \<open>
  \<open>promisify(exec)(command, {maxBuffer})\<close> of Node's \<open>child_process\<close>: the promise
  rejects when a stream grows beyond \<open>maxBuffer\<close> (the child is killed) and when the
  child fails; otherwise it resolves to the captured \<open>stdout\<close> and \<open>stderr\<close>.
\<close>

definition execAsync :: "runtime \<Rightarrow> string \<Rightarrow> nat \<Rightarrow> js_error + string \<times> string" where
  "execAsync rt cmd limit =
     (let c = shell rt cmd in
      if length (child_stdout c) > limit
        then Inl (Error ''stdout maxBuffer length exceeded'' (Some (take limit (child_stderr c))))
      else if length (child_stderr c) > limit
        then Inl (Error ''stderr maxBuffer length exceeded'' (Some (take limit (child_stderr c))))
      else if child_failed c
        then Inl (Error (''Command failed: '' @ cmd @ [nl] @ child_stderr c) (Some (child_stderr c)))
      else Inr (child_stdout c, child_stderr c))"

section \<open>Reducing the response (version 1.2.0)\<close>

text \<open>
  Byte truncation: the pair \<open>(response, truncated)\<close> after
  \<open>if (response.length > max_response_size) {...}\<close>.
\<close>

definition truncate_response :: "string \<Rightarrow> int \<Rightarrow> string \<times> bool" where
  "truncate_response stdout m =
     (if int (length stdout) > m then (substring stdout 0 m, True) else (stdout, False))"

text \<open>
  The reduction of an oversized parsed value. \<open>typeof null\<close> is \<open>'object'\<close>, and
  \<open>Object.entries(null)\<close> throws a \<open>TypeError\<close>.
\<close>

definition reduce_parsed :: "json \<Rightarrow> js_error + json" where
  "reduce_parsed parsedResponse =
     (if length (JSON_stringify parsedResponse) > 1000000 then
        (case parsedResponse of
           JArray xs \<Rightarrow> Inr (JArray (take 100 xs))
         | JObject kvs \<Rightarrow> Inr (JObject (take 100 kvs))
         | JNull \<Rightarrow> Inl (Error ''Cannot convert undefined or null to object'' None)
         | _ \<Rightarrow> Inr parsedResponse)
      else Inr parsedResponse)"

text \<open>The object the handler returns: one text item, and \<open>isError\<close> on failure.\<close>

definition text_result :: "string \<Rightarrow> json" where
  "text_result t =
     JObject [(''content'', JArray [JObject [(''type'', JString ''text''), (''text'', JString t)]])]"

text \<open>\<open>x || null\<close> on an optional string: absent and empty are both falsy.\<close>

definition or_null :: "string option \<Rightarrow> json" where
  "or_null x = (case x of None \<Rightarrow> JNull | Some s \<Rightarrow> if s = [] then JNull else JString s)"

definition error_result :: "js_error \<Rightarrow> json" where
  "error_result e =
     JObject [(''content'', JArray [JObject [(''type'', JString ''text''),
                (''text'', JString (JSON_stringify
                   (JObject [(''error'', JString (message e)),
                             (''stderr'', or_null (stderr_of e))])))]]),
              (''isError'', JBool True)]"

text \<open>
  \<open>handleCurlRequest\<close> of version 1.2.0. The second component lists the command lines
  handed to \<open>exec\<close>, so an empty list says that no process was spawned.
\<close>

definition handleCurlRequest :: "runtime \<Rightarrow> args \<Rightarrow> json \<times> string list" where
  "handleCurlRequest rt a =
     (if \<not> URL_parses rt (url a)
        then (error_result (Error (''Invalid URL: '' @ url a) None), [])
      else
        (case execAsync rt (command a) maxBuffer of
           Inl e \<Rightarrow> (error_result e, [command a])
         | Inr (stdout, stderr) \<Rightarrow>
             (let (response, truncated) = truncate_response stdout (max_response_size_of a) in
              (case JSON_parse rt response of
                 Some parsedResponse \<Rightarrow>
                   (case reduce_parsed parsedResponse of
                      Inl e \<Rightarrow> (error_result e, [command a])
                    | Inr reduced \<Rightarrow> (text_result (JSON_stringify reduced), [command a]))
               | None \<Rightarrow> (text_result response, [command a])))))"

section \<open>Version 1.1.0 of the handler\<close>

text \<open>The \<open>result\<close> object of version 1.1.0, with the truncation fields when truncated.\<close>

definition result_v110 :: "string \<Rightarrow> string \<Rightarrow> string \<Rightarrow> bool \<Rightarrow> nat \<Rightarrow> int \<Rightarrow> json" where
  "result_v110 cmd response stderr truncated originalSize m =
     JObject ([(''success'', JBool True),
               (''command'', JString cmd),
               (''response'', JString response),
               (''error'', or_null (Some stderr))]
              @ (if truncated then
                   [(''truncated'', JBool True),
                    (''original_size'', JNumber (int originalSize)),
                    (''truncated_size'', JNumber m),
                    (''truncation_note'', JString (''Response truncated from ''
                        @ Number_toString (int originalSize) @ '' bytes to ''
                        @ Number_toString m @ '' bytes'')),
                    (''warning'', JString
                      ''Large response was truncated. Use max_response_size parameter to control truncation.'')]
                 else []))"

definition oversized_v110 :: "string \<Rightarrow> nat \<Rightarrow> json" where
  "oversized_v110 response originalSize =
     JObject [(''success'', JBool True),
              (''truncated'', JBool True),
              (''original_size'', JNumber (int originalSize)),
              (''error'', JString ''Response too large even after truncation''),
              (''sample'', JString (substring response 0 50000)),
              (''note'', JString ''Only showing first 50KB of response due to size constraints'')]"

definition error_result_v110 :: "js_error \<Rightarrow> json" where
  "error_result_v110 e =
     JObject [(''content'', JArray [JObject [(''type'', JString ''text''),
                (''text'', JString (JSON_stringify
                   (JObject [(''success'', JBool False),
                             (''error'', JString (message e)),
                             (''stderr'', or_null (stderr_of e))])))]]),
              (''isError'', JBool True)]"

definition handleCurlRequest_v110 :: "runtime \<Rightarrow> args \<Rightarrow> json \<times> string list" where
  "handleCurlRequest_v110 rt a =
     (if \<not> URL_parses rt (url a)
        then (error_result_v110 (Error (''Invalid URL: '' @ url a) None), [])
      else
        (case execAsync rt (command a) maxBuffer of
           Inl e \<Rightarrow> (error_result_v110 e, [command a])
         | Inr (stdout, stderr) \<Rightarrow>
             (let (response, truncated) = truncate_response stdout (max_response_size_of a);
                  resultJson = JSON_stringify
                    (result_v110 (command a) response stderr truncated (length stdout)
                       (max_response_size_of a))
              in if length resultJson > 1000000
                 then (text_result (JSON_stringify (oversized_v110 response (length stdout))),
                       [command a])
                 else (text_result resultJson, [command a]))))"

section \<open>Reading a result\<close>

text \<open>Property lookup in an object, and the text of the first content item.\<close>

fun field :: "string \<Rightarrow> json \<Rightarrow> json option" where
  "field k (JObject kvs) = map_of kvs k"
| "field k v = None"

fun keys :: "json \<Rightarrow> string list" where
  "keys (JObject kvs) = map fst kvs"
| "keys v = []"

definition result_text :: "json \<Rightarrow> string" where
  "result_text r =
     (case field ''content'' r of
        Some (JArray (item # items)) \<Rightarrow>
          (case field ''text'' item of Some (JString t) \<Rightarrow> t | _ \<Rightarrow> [])
      | _ \<Rightarrow> [])"

section \<open>The shell that \<open>exec\<close> hands the command line to\<close>

text \<open>
  On a POSIX system \<open>exec\<close> runs the command through \<open>/bin/sh -c\<close>. The lexer
  below is the part of the
  POSIX shell grammar (Shell Command Language, 2.2 Quoting and 2.3 Token Recognition)
  that decides where a word and a command end: blanks separate words, \<open>;\<close> and
  newline end a command, single quotes keep every character up to the next single quote
  (a backslash included), double quotes keep everything but \<open>\\\<close>, \<open>$\<close> and the
  backquote, an unquoted backslash keeps the next character, and \<open>#\<close> at the start of
  a word begins a comment. Expansions and the other operators are outside this fragment,
  and a command line that uses them is \<open>Unsupported\<close>.
\<close>

datatype quoting = Unquoted | Escaped | Single | Double | DoubleEscaped | Comment

datatype sh_parse = Commands "string list list" | Unterminated | Unsupported

fun add_char :: "char \<Rightarrow> string option \<Rightarrow> string option" where
  "add_char c None = Some [c]"
| "add_char c (Some w) = Some (w @ [c])"

fun open_word :: "string option \<Rightarrow> string option" where
  "open_word None = Some []"
| "open_word (Some w) = Some w"

fun end_word :: "string option \<Rightarrow> string list \<Rightarrow> string list" where
  "end_word None ws = ws"
| "end_word (Some w) ws = ws @ [w]"

definition end_command :: "string list \<Rightarrow> string list list \<Rightarrow> string list list" where
  "end_command ws cs = (if ws = [] then cs else cs @ [ws])"

definition sh_operator :: "char \<Rightarrow> bool" where
  "sh_operator c = (c \<in> set ''|&<>()$`*?[~'')"

fun sh_lex :: "quoting \<Rightarrow> string list list \<Rightarrow> string list \<Rightarrow> string option \<Rightarrow> string \<Rightarrow> sh_parse" where
  "sh_lex Unquoted cs ws w [] = Commands (end_command (end_word w ws) cs)"
| "sh_lex Comment cs ws w [] = Commands (end_command (end_word w ws) cs)"
| "sh_lex Escaped cs ws w [] = Commands (end_command (end_word (add_char bs w) ws) cs)"
| "sh_lex Single cs ws w [] = Unterminated"
| "sh_lex Double cs ws w [] = Unterminated"
| "sh_lex DoubleEscaped cs ws w [] = Unterminated"
| "sh_lex Unquoted cs ws w (c # s) =
     (if c = CHR '' '' \<or> c = CHR 0x09 then sh_lex Unquoted cs (end_word w ws) None s
      else if c = CHR '';'' \<or> c = nl then sh_lex Unquoted (end_command (end_word w ws) cs) [] None s
      else if c = sq then sh_lex Single cs ws (open_word w) s
      else if c = dq then sh_lex Double cs ws (open_word w) s
      else if c = bs then sh_lex Escaped cs ws w s
      else if c = CHR ''#'' \<and> w = None then sh_lex Comment cs ws w s
      else if sh_operator c then Unsupported
      else sh_lex Unquoted cs ws (add_char c w) s)"
| "sh_lex Escaped cs ws w (c # s) =
     (if c = nl then sh_lex Unquoted cs ws w s else sh_lex Unquoted cs ws (add_char c w) s)"
| "sh_lex Single cs ws w (c # s) =
     (if c = sq then sh_lex Unquoted cs ws w s else sh_lex Single cs ws (add_char c w) s)"
| "sh_lex Double cs ws w (c # s) =
     (if c = dq then sh_lex Unquoted cs ws w s
      else if c = bs then sh_lex DoubleEscaped cs ws w s
      else if c = CHR ''$'' \<or> c = CHR ''`'' then Unsupported
      else sh_lex Double cs ws (add_char c w) s)"
| "sh_lex DoubleEscaped cs ws w (c # s) =
     (if c = CHR ''$'' \<or> c = CHR ''`'' \<or> c = dq \<or> c = bs then sh_lex Double cs ws (add_char c w) s
      else if c = nl then sh_lex Double cs ws w s
      else sh_lex Double cs ws (add_char c (add_char bs w)) s)"
| "sh_lex Comment cs ws w (c # s) =
     (if c = nl then sh_lex Unquoted (end_command (end_word w ws) cs) [] None s
      else sh_lex Comment cs ws w s)"

definition sh_commands :: "string \<Rightarrow> sh_parse" where
  "sh_commands line = sh_lex Unquoted [] [] None line"

section \<open>Example runtimes and requests\<close>

text \<open>
  The first step of URL parsing without a base: the input must start with a scheme, an
  ASCII letter followed by letters, digits, \<open>+\<close>, \<open>-\<close> or \<open>.\<close> and then a colon. The
  examples below use it as the URL parser; on their URLs it answers as \<open>new URL\<close> does.
\<close>

definition is_alpha :: "char \<Rightarrow> bool" where
  "is_alpha c = (let n = (of_char c :: nat) in (65 \<le> n \<and> n \<le> 90) \<or> (97 \<le> n \<and> n \<le> 122))"

definition is_scheme_char :: "char \<Rightarrow> bool" where
  "is_scheme_char c =
     (let n = (of_char c :: nat) in is_alpha c \<or> (48 \<le> n \<and> n \<le> 57) \<or> c \<in> set ''+-.'')"

definition has_scheme :: "string \<Rightarrow> bool" where
  "has_scheme u =
     (case u of
        [] \<Rightarrow> False
      | c # cs \<Rightarrow> is_alpha c \<and>
          (case dropWhile is_scheme_char cs of [] \<Rightarrow> False | d # ds \<Rightarrow> d = CHR '':''))"

text \<open>
  A runtime whose child process prints \<open>body\<close> and exits with code 0, with
  \<open>JSON.parse\<close> given by \<open>parse\<close>.
\<close>

definition serving :: "string \<Rightarrow> (string \<Rightarrow> json option) \<Rightarrow> runtime" where
  "serving body parse =
     \<lparr>URL_parses = has_scheme,
      shell = (\<lambda>cmd. \<lparr>child_stdout = body, child_stderr = [], child_failed = False\<rparr>),
      JSON_parse = parse\<rparr>"

text \<open>\<open>JSON.parse\<close> on texts that are not JSON, and on one text that is.\<close>

definition not_json :: "string \<Rightarrow> json option" where
  "not_json s = None"


text \<open>A request for \<open>u\<close> with every optional property absent.\<close>

definition request :: "string \<Rightarrow> args" where
  "request u =
     \<lparr>url = u, method_arg = None, headers = None, data = None, timeout = None,
      follow_redirects = None, include_headers = None, user_agent = None,
      max_response_size = None\<rparr>"







section \<open>Facts about the model\<close>



lemma method_of_data [simp]: "method_of (a\<lparr>data := d\<rparr>) = method_of a"
  by (simp add: method_of_def)


lemma curlCmd_no_data_prefix:
  "p \<in> set (curlCmd a) \<Longrightarrow> data_piece a = [] \<Longrightarrow> take 6 p \<noteq> ''--data''"
  by (auto simp: curlCmd_def)



lemma execAsync_overflow:
  "length (child_stdout (shell rt cmd)) > limit \<Longrightarrow>
   \<exists>e. execAsync rt cmd limit = Inl (Error ''stdout maxBuffer length exceeded'' e)"
  by (simp add: execAsync_def Let_def)







lemma result_text_text_result [simp]: "result_text (text_result t) = t"
  by (simp add: result_text_def text_result_def)

lemma keys_text_result [simp]: "keys (text_result t) = [''content'']"
  by (simp add: text_result_def)

lemma keys_handleCurlRequest:
  "keys (fst (handleCurlRequest rt a)) = [''content'']
   \<or> keys (fst (handleCurlRequest rt a)) = [''content'', ''isError'']"
  by (simp add: handleCurlRequest_def Let_def case_prod_beta text_result_def error_result_def
      split: option.splits sum.splits)






text \<open>
  The lengths of the example responses, as received and as \<open>JSON.stringify\<close> formats
  them.
\<close>

lemma Number_toString_zero [simp]: "Number_toString 0 = ''0''"
  by (simp add: Number_toString_def digit_def)








section \<open>The command builder\<close>

text \<open>
  Claim C9. When a data payload is supplied and the method is not one of POST, PUT and
  PATCH, the constructed command has no body-data argument: the array \<open>curlCmd\<close> and
  the joined command line are those of the same request without \<open>data\<close>, and no
  element of the array starts with \<open>--data\<close>.
\<close>

theorem data_omitted_for_other_methods:
  assumes "method_of a \<notin> {''POST'', ''PUT'', ''PATCH''}"
  shows "curlCmd (a\<lparr>data := Some d\<rparr>) = curlCmd (a\<lparr>data := None\<rparr>)
       \<and> command (a\<lparr>data := Some d\<rparr>) = command (a\<lparr>data := None\<rparr>)
       \<and> (\<forall>p \<in> set (curlCmd (a\<lparr>data := Some d\<rparr>)). take 6 p \<noteq> ''--data'')"
proof -
  have piece: "data_piece (a\<lparr>data := Some d\<rparr>) = []"
    using assms by (simp add: data_piece_def)
  have same: "curlCmd (a\<lparr>data := Some d\<rparr>) = curlCmd (a\<lparr>data := None\<rparr>)"
    using piece
    by (simp add: curlCmd_def data_piece_def timeout_of_def user_agent_of_def
        follow_redirects_of_def include_headers_of_def headers_of_def)
  have none: "\<forall>p \<in> set (curlCmd (a\<lparr>data := Some d\<rparr>)). take 6 p \<noteq> ''--data''"
    using curlCmd_no_data_prefix [OF _ piece] by blast
  show ?thesis
    using same none by (simp add: command_def)
qed

theorem data_omitted_for_other_methods_witness:
  "method_of ((request ''http://example.com'')\<lparr>method_arg := Some ''GET''\<rparr>) \<notin> {''POST'', ''PUT'', ''PATCH''}
   \<and> command ((request ''http://example.com'')\<lparr>method_arg := Some ''GET'', data := Some ''a=1''\<rparr>)
     = ''curl --max-time 30 --user-agent '' @ [dq] @ ''curl-mcp-server/1.1.0'' @ [dq]
       @ '' --silent --show-error --location --request GET '' @ [dq] @ ''http://example.com'' @ [dq]"
  using data_omitted_for_other_methods
    [of "(request ''http://example.com'')\<lparr>method_arg := Some ''GET''\<rparr>" "''a=1''"]
  by (simp add: method_of_def request_def command_def curlCmd_def data_piece_def timeout_of_def
      user_agent_of_def follow_redirects_of_def include_headers_of_def headers_of_def
      Number_toString_def digit_def)

text \<open>
  Claim C10. For a method among POST, PUT and PATCH and \<open>data\<close> equal to the empty
  string, the constructed command has no body-data argument: it is the command of the
  same request with \<open>data\<close> absent, since the guard tests the truthiness of \<open>data\<close>.
\<close>

theorem empty_data_is_absent:
  assumes "method_of a \<in> {''POST'', ''PUT'', ''PATCH''}"
  shows "curlCmd (a\<lparr>data := Some []\<rparr>) = curlCmd (a\<lparr>data := None\<rparr>)
       \<and> command (a\<lparr>data := Some []\<rparr>) = command (a\<lparr>data := None\<rparr>)
       \<and> (\<forall>p \<in> set (curlCmd (a\<lparr>data := Some []\<rparr>)). take 6 p \<noteq> ''--data'')"
proof -
  have piece: "data_piece (a\<lparr>data := Some []\<rparr>) = []"
    by (simp add: data_piece_def)
  have same: "curlCmd (a\<lparr>data := Some []\<rparr>) = curlCmd (a\<lparr>data := None\<rparr>)"
    by (simp add: curlCmd_def data_piece_def timeout_of_def user_agent_of_def
        follow_redirects_of_def include_headers_of_def headers_of_def)
  have none: "\<forall>p \<in> set (curlCmd (a\<lparr>data := Some []\<rparr>)). take 6 p \<noteq> ''--data''"
    using curlCmd_no_data_prefix [OF _ piece] by blast
  show ?thesis
    using same none by (simp add: command_def)
qed

theorem empty_data_is_absent_witness:
  "method_of ((request ''http://example.com'')\<lparr>method_arg := Some ''POST''\<rparr>) \<in> {''POST'', ''PUT'', ''PATCH''}
   \<and> command ((request ''http://example.com'')\<lparr>method_arg := Some ''POST'', data := Some []\<rparr>)
     = ''curl --max-time 30 --user-agent '' @ [dq] @ ''curl-mcp-server/1.1.0'' @ [dq]
       @ '' --silent --show-error --location --request POST '' @ [dq] @ ''http://example.com'' @ [dq]"
  using empty_data_is_absent
    [of "(request ''http://example.com'')\<lparr>method_arg := Some ''POST''\<rparr>"]
  by (simp add: method_of_def request_def command_def curlCmd_def data_piece_def timeout_of_def
      user_agent_of_def follow_redirects_of_def include_headers_of_def headers_of_def
      Number_toString_def digit_def)




text \<open>
  Claim C1 says that every user-controlled value is escaped so that the shell reads the
  command as the intended argument tokens, and that a POST body with a single quote
  reaches the client as supplied with no further command run. The body is put between
  single quotes with a backslash before each of its single quotes, and inside single
  quotes the shell takes the backslash literally and the quote as the closing one. For the
  body \<open>'; echo INJECTED #\<close> the shell reads two commands, curl with the body \<open>\\\<close>
  and no URL, then \<open>echo INJECTED\<close>; for the body \<open>it's\<close> the command line has an
  unterminated quote. The user agent (as the URL and the headers) is put between double
  quotes as it is, so a double quote in it ends the word.
\<close>

theorem quote_in_body_breaks_out:
  "command ((request ''http://example.com'')
      \<lparr>method_arg := Some ''POST'', data := Some ([sq] @ ''; echo INJECTED #'')\<rparr>)
     = ''curl --max-time 30 --user-agent '' @ [dq] @ ''curl-mcp-server/1.1.0'' @ [dq]
       @ '' --silent --show-error --location --request POST --data ''
       @ [sq, bs, sq] @ ''; echo INJECTED #'' @ [sq] @ '' '' @ [dq] @ ''http://example.com'' @ [dq]
   \<and> sh_commands (command ((request ''http://example.com'')
      \<lparr>method_arg := Some ''POST'', data := Some ([sq] @ ''; echo INJECTED #'')\<rparr>))
     = Commands [[''curl'', ''--max-time'', ''30'', ''--user-agent'', ''curl-mcp-server/1.1.0'',
                  ''--silent'', ''--show-error'', ''--location'', ''--request'', ''POST'',
                  ''--data'', [bs]],
                 [''echo'', ''INJECTED'']]
   \<and> sh_commands (command ((request ''http://example.com'')
      \<lparr>method_arg := Some ''POST'', data := Some (''it'' @ [sq] @ ''s'')\<rparr>))
     = Unterminated
   \<and> sh_commands (command ((request ''http://example.com'')
      \<lparr>user_agent := Some (''x'' @ [dq] @ ''; echo INJECTED #'')\<rparr>))
     = Commands [[''curl'', ''--max-time'', ''30'', ''--user-agent'', ''x''],
                 [''echo'', ''INJECTED'']]"
  by code_simp

section \<open>URL validation\<close>

text \<open>
  Claim C8. When the URL does not parse (\<open>new URL(url)\<close> throws), the result is the
  error message \<open>Invalid URL: <url>\<close> with \<open>isError\<close> set, and no process is
  spawned: the validation precedes the assembly and the execution of the command.
\<close>

theorem invalid_url_spawns_nothing:
  assumes "\<not> URL_parses rt (url a)"
  shows "handleCurlRequest rt a = (error_result (Error (''Invalid URL: '' @ url a) None), [])
       \<and> snd (handleCurlRequest rt a) = []
       \<and> field ''isError'' (fst (handleCurlRequest rt a)) = Some (JBool True)
       \<and> result_text (fst (handleCurlRequest rt a))
           = JSON_stringify (JObject [(''error'', JString (''Invalid URL: '' @ url a)),
                                      (''stderr'', JNull)])"
  using assms
  by (simp add: handleCurlRequest_def error_result_def result_text_def or_null_def)

theorem invalid_url_spawns_nothing_witness:
  "\<not> URL_parses (serving ''hello'' not_json) (url (request ''not-a-url''))
   \<and> snd (handleCurlRequest (serving ''hello'' not_json) (request ''not-a-url'')) = []
   \<and> field ''isError'' (fst (handleCurlRequest (serving ''hello'' not_json) (request ''not-a-url'')))
       = Some (JBool True)"
proof -
  have h: "\<not> URL_parses (serving ''hello'' not_json) (url (request ''not-a-url''))"
    by (simp add: serving_def request_def has_scheme_def is_alpha_def is_scheme_char_def)
  show ?thesis
    using h invalid_url_spawns_nothing [OF h] by (simp add: error_result_def)
qed

section \<open>The capture buffer\<close>




section \<open>Byte truncation\<close>



section \<open>The response reducer\<close>







section \<open>Truncation metadata\<close>

text \<open>
  What version 1.1.0 returns for a byte-truncated response that fits the result: the
  \<open>result\<close> object with \<open>truncated\<close>, \<open>original_size\<close>, \<open>truncated_size\<close>,
  \<open>truncation_note\<close> and \<open>warning\<close>.
\<close>

lemma result_v110_truncated:
  "keys (result_v110 cmd response err True n m)
     = [''success'', ''command'', ''response'', ''error'', ''truncated'', ''original_size'',
        ''truncated_size'', ''truncation_note'', ''warning'']
   \<and> field ''original_size'' (result_v110 cmd response err True n m) = Some (JNumber (int n))
   \<and> field ''truncated_size'' (result_v110 cmd response err True n m) = Some (JNumber m)"
  by (simp add: result_v110_def)

lemma handle_v110_truncated:
  assumes "URL_parses rt (url a)"
      and "execAsync rt (command a) maxBuffer = Inr (stdout, stderr)"
      and "int (length stdout) > max_response_size_of a"
      and "length (JSON_stringify (result_v110 (command a)
             (substring stdout 0 (max_response_size_of a)) stderr True (length stdout)
             (max_response_size_of a))) \<le> 1000000"
  shows "result_text (fst (handleCurlRequest_v110 rt a))
     = JSON_stringify (result_v110 (command a) (substring stdout 0 (max_response_size_of a))
         stderr True (length stdout) (max_response_size_of a))"
  using assms by (simp add: handleCurlRequest_v110_def truncate_response_def)


end
